theory Spec2Isabelle
  imports Complex_Main
begin

section \<open>The curve registry\<close>

text \<open>
  The component \<^verbatim>\<open>BrachistochroneDemo\<close> keeps four curves in an object literal
  \<^verbatim>\<open>curves\<close>. Each entry has a position function \<^verbatim>\<open>func\<close> of the normalised
  progress, a display colour and a nominal duration \<^verbatim>\<open>time\<close>. JavaScript numbers are
  modelled as real numbers: rounding of IEEE doubles, infinities and NaN are outside the
  model. A point \<^verbatim>\<open>[x, y]\<close> is a pair.
\<close>

record curve =
  func :: "real \<Rightarrow> real \<times> real"
  color :: string
  time :: real

definition brachistochrone :: curve where
  "brachistochrone =
     \<lparr> func = (\<lambda>t. let theta = t * pi in ((theta - sin theta) / pi, (1 - cos theta) / 2)),
       color = ''#3b82f6'',
       time = 2.0 \<rparr>"

definition straightLine :: curve where
  "straightLine = \<lparr> func = (\<lambda>t. (t, t)), color = ''#ef4444'', time = 2.5 \<rparr>"

definition parabola :: curve where
  "parabola = \<lparr> func = (\<lambda>t. (t, t * (2 - t))), color = ''#8b5cf6'', time = 2.1 \<rparr>"

text \<open>The fourth curve reads the component state \<^verbatim>\<open>cycloidParameter\<close>.\<close>

definition parametricCycloid :: "real \<Rightarrow> curve" where
  "parametricCycloid cycloidParameter =
     \<lparr> func = (\<lambda>t. (t - sin (pi * t) / pi,
                     (1 - cos (pi * t)) / 2 + cycloidParameter * (sin (pi * t)) ^ 2)),
       color = ''#f59e0b'',
       time = 2.0 * (1 + cycloidParameter) \<rparr>"

text \<open>
  \<^verbatim>\<open>Object.entries(curves)\<close> lists the entries in insertion order, so the registry is
  an association list in the order of the object literal.
\<close>

definition curves :: "real \<Rightarrow> (string \<times> curve) list" where
  "curves cycloidParameter =
     [(''Brachistochrone'', brachistochrone),
      (''Straight Line'', straightLine),
      (''Parabola'', parabola),
      (''Parametric Cycloid'', parametricCycloid cycloidParameter)]"

section \<open>Component state\<close>

text \<open>
  The React state variables and the two refs of the component. State variables are read
  from the closure of the render in which a callback was created and are written through
  their setters; the effect is re-run after every render, so a frame callback always sees
  the latest committed state. A callback is modelled as a function from the state before
  to the state after, the setters' writes taking effect at its end. Refs are read and
  written in place. \<^verbatim>\<open>elapsedTimes\<close> is a \<^verbatim>\<open>Record<string, string>\<close>, a map.
\<close>

datatype phase = Idle | Running | Paused

record state =
  animationState :: phase
  animationSpeed :: real
  cycloidParameter :: real
  elapsedTimes :: "string \<Rightarrow> string option"
  rankings :: "string list"
  prevRankings :: "string list"
  startTimeRef :: "real option"
  isAnimationComplete :: bool
  pausedElapsedTime :: real
  lastTimestampRef :: "real option"

text \<open>The arguments of the \<^verbatim>\<open>useState\<close> and \<^verbatim>\<open>useRef\<close> calls.\<close>

definition initialState :: state where
  "initialState =
     \<lparr> animationState = Idle, animationSpeed = 0.5, cycloidParameter = 0.2,
       elapsedTimes = Map.empty, rankings = [], prevRankings = [],
       startTimeRef = None, isAnimationComplete = False, pausedElapsedTime = 0,
       lastTimestampRef = None \<rparr>"

section \<open>Number formatting\<close>

text \<open>
  \<^verbatim>\<open>Number.prototype.toFixed(2)\<close>: the sign is taken off first, then the integer n
  with n / 100 closest to the value is chosen, the larger one on a tie, and written with
  two digits after the point. The exponent notation JavaScript switches to from 1e21 on
  is not modelled.
\<close>

definition digitChar :: "nat \<Rightarrow> char" where
  "digitChar d = ''0123456789'' ! (d mod 10)"

function natToString :: "nat \<Rightarrow> string" where
  "natToString n = (if n < 10 then [digitChar n] else natToString (n div 10) @ [digitChar (n mod 10)])"
  by pat_completeness auto
termination
  by (relation "measure (\<lambda>n. n)") auto

definition toFixed2 :: "real \<Rightarrow> string" where
  "toFixed2 x =
     (let n = nat \<lfloor>\<bar>x\<bar> * 100 + 1 / 2\<rfloor>
      in (if x < 0 then ''-'' else []) @ natToString (n div 100) @ ''.''
           @ [digitChar (n div 10), digitChar n])"

section \<open>The canvas\<close>

text \<open>
  What a frame paints is the list of its drawing operations, in order. The scene's fixed
  parts are single operations; a ball is the filled arc of radius 8 with its centre in
  canvas pixels and its fill colour. The canvas is 700 by 400 with margins of 40, so the
  graph area is 620 by 320.
\<close>

datatype drawOp =
  ClearRect | Background | Grid | Axes | AxisLabels | CurvePath string | Ball real real string

definition marginLeft :: real where
  "marginLeft = 40"

definition marginTop :: real where
  "marginTop = 40"

definition graphWidth :: real where
  "graphWidth = 700 - 40 - 40"

definition graphHeight :: real where
  "graphHeight = 400 - 40 - 40"

definition ball :: "curve \<Rightarrow> real \<Rightarrow> drawOp" where
  "ball c t =
     (case func c t of (x, y) \<Rightarrow>
        Ball (marginLeft + x * graphWidth) (marginTop + y * graphHeight) (color c))"

definition drawStaticElements :: "state \<Rightarrow> drawOp list" where
  "drawStaticElements s =
     [ClearRect, Background, Grid, Axes, AxisLabels]
     @ map (\<lambda>(label, c). CurvePath (color c)) (curves (cycloidParameter s))
     @ (if animationState s \<noteq> Running
        then map (\<lambda>(label, c). ball c 0) (curves (cycloidParameter s))
        else [])"

fun isBall :: "drawOp \<Rightarrow> bool" where
  "isBall (Ball x y fillStyle) = True"
| "isBall _ = False"

section \<open>The frame callback\<close>

text \<open>
  \<^verbatim>\<open>a || b\<close> on a ref holding a number or null: null and 0 are falsy.
\<close>

definition orElse :: "real option \<Rightarrow> real \<Rightarrow> real" where
  "orElse r d = (case r of None \<Rightarrow> d | Some v \<Rightarrow> if v = 0 then d else v)"

text \<open>The first statement of \<^verbatim>\<open>drawFrame\<close>: both baselines are set when there is no start time.\<close>

definition setBaseline :: "real \<Rightarrow> state \<Rightarrow> state" where
  "setBaseline timestamp s =
     (if startTimeRef s = None
      then s\<lparr>startTimeRef := Some timestamp, lastTimestampRef := Some timestamp\<rparr>
      else s)"

text \<open>The local variable \<^verbatim>\<open>elapsedTime\<close> of \<^verbatim>\<open>drawFrame\<close>.\<close>

definition frameElapsed :: "real \<Rightarrow> state \<Rightarrow> real" where
  "frameElapsed timestamp s =
     (if animationState s = Running
      then let deltaTime = timestamp - orElse (lastTimestampRef (setBaseline timestamp s)) timestamp
           in pausedElapsedTime s + deltaTime / 1000 * animationSpeed s
      else pausedElapsedTime s)"

definition progress :: "real \<Rightarrow> curve \<Rightarrow> real" where
  "progress elapsedTime c = min (elapsedTime / time c) 1"

text \<open>
  \<^verbatim>\<open>progressData\<close>: one triple per registry entry, its third component the literal 0,
  then sorted in place by the comparator \<^verbatim>\<open>a[2] - b[2]\<close>. \<^verbatim>\<open>Array.prototype.sort\<close> is
  stable, as is \<open>sort_key\<close>.
\<close>

definition progressData :: "real \<Rightarrow> real \<Rightarrow> (string \<times> real \<times> real) list" where
  "progressData elapsedTime p =
     sort_key (\<lambda>(label, pr, d). d)
       (map (\<lambda>(label, c). (label, progress elapsedTime c, 0)) (curves p))"

definition newRankings :: "real \<Rightarrow> real \<Rightarrow> string list" where
  "newRankings elapsedTime p = map (\<lambda>(label, pr, d). label) (progressData elapsedTime p)"

text \<open>
  The body of the \<^verbatim>\<open>forEach\<close> inside the \<^verbatim>\<open>setElapsedTimes\<close> updater. \<^verbatim>\<open>curves[label]\<close>
  of a label that is no key of the registry would raise a TypeError; the labels come
  from the registry, so that branch is never taken and leaves the map as it is.
\<close>

definition newTimesStep ::
  "real \<Rightarrow> real \<Rightarrow> string \<times> real \<times> real \<Rightarrow> (string \<Rightarrow> string option) \<Rightarrow> (string \<Rightarrow> string option)" where
  "newTimesStep elapsedTime p entry newTimes =
     (case entry of (label, pr, distanceToEnd) \<Rightarrow>
        (case map_of (curves p) label of
           None \<Rightarrow> newTimes
         | Some c \<Rightarrow> newTimes(label \<mapsto> (if pr < 1 then toFixed2 elapsedTime else toFixed2 (time c)))))"

definition updateElapsedTimes ::
  "real \<Rightarrow> real \<Rightarrow> (string \<Rightarrow> string option) \<Rightarrow> (string \<Rightarrow> string option)" where
  "updateElapsedTimes elapsedTime p prev =
     fold (newTimesStep elapsedTime p) (progressData elapsedTime p) prev"

text \<open>\<^verbatim>\<open>Math.max(...Object.values(curves).map(c => c.time))\<close> over the four entries.\<close>

definition maxTime :: "real \<Rightarrow> real" where
  "maxTime p = (let ts = map (\<lambda>(label, c). time c) (curves p) in fold max (tl ts) (hd ts))"

text \<open>
  What one call of \<^verbatim>\<open>drawFrame\<close> paints: the canvas is cleared, the static elements
  are drawn, then one ball per curve at its progress, and once more inside the
  \<^verbatim>\<open>setElapsedTimes\<close> updater, in the order of the sorted \<^verbatim>\<open>progressData\<close>.
\<close>

definition frameOps :: "real \<Rightarrow> state \<Rightarrow> drawOp list" where
  "frameOps timestamp s =
     (let elapsedTime = frameElapsed timestamp s; p = cycloidParameter s
      in ClearRect # drawStaticElements s
         @ map (\<lambda>(label, c). ball c (progress elapsedTime c)) (curves p)
         @ concat (map (\<lambda>(label, pr, d).
               case map_of (curves p) label of None \<Rightarrow> [] | Some c \<Rightarrow> [ball c pr])
             (progressData elapsedTime p)))"

text \<open>
  The state after one call of \<^verbatim>\<open>drawFrame(timestamp)\<close>. \<^verbatim>\<open>JSON.stringify\<close> is
  injective on arrays of strings, so the comparison of the two serialisations is the
  comparison of the two lists.
\<close>

definition drawFrame :: "real \<Rightarrow> state \<Rightarrow> state" where
  "drawFrame timestamp s =
     (let elapsedTime = frameElapsed timestamp s;
          p = cycloidParameter s;
          s0 = setBaseline timestamp s;
          s1 = (if animationState s = Running then s0\<lparr>lastTimestampRef := Some timestamp\<rparr> else s0);
          s2 = (if newRankings elapsedTime p \<noteq> rankings s
                then s1\<lparr>prevRankings := rankings s, rankings := newRankings elapsedTime p\<rparr>
                else s1);
          s3 = s2\<lparr>elapsedTimes := updateElapsedTimes elapsedTime p (elapsedTimes s)\<rparr>
      in if elapsedTime \<ge> maxTime p
         then s3\<lparr>animationState := Idle, isAnimationComplete := True\<rparr>
         else if animationState s = Running
         then s3\<lparr>pausedElapsedTime := elapsedTime\<rparr>
         else s3)"

section \<open>The button and slider handlers\<close>

definition handleStartAnimation :: "state \<Rightarrow> state" where
  "handleStartAnimation s =
     s\<lparr>startTimeRef := None, lastTimestampRef := None, pausedElapsedTime := 0,
       animationState := Running, elapsedTimes := Map.empty, isAnimationComplete := False\<rparr>"

definition handlePauseAnimation :: "state \<Rightarrow> state" where
  "handlePauseAnimation s = s\<lparr>animationState := Paused\<rparr>"

definition handleResumeAnimation :: "state \<Rightarrow> state" where
  "handleResumeAnimation s = s\<lparr>lastTimestampRef := None, animationState := Running\<rparr>"

definition handleResetAnimation :: "state \<Rightarrow> state" where
  "handleResetAnimation s =
     s\<lparr>startTimeRef := None, lastTimestampRef := None, pausedElapsedTime := 0,
       animationState := Idle, elapsedTimes := Map.empty\<rparr>"

text \<open>The sliders' \<^verbatim>\<open>onValueChange\<close> callbacks pass the value to the state setter as it is.\<close>

definition setAnimationSpeed :: "real \<Rightarrow> state \<Rightarrow> state" where
  "setAnimationSpeed v s = s\<lparr>animationSpeed := v\<rparr>"

definition setCycloidParameter :: "real \<Rightarrow> state \<Rightarrow> state" where
  "setCycloidParameter v s = s\<lparr>cycloidParameter := v\<rparr>"

section \<open>The ranking panel\<close>

text \<open>
  \<^verbatim>\<open>Array.prototype.indexOf\<close>: the first index of the element, or -1. The panel maps
  over \<^verbatim>\<open>rankings\<close> with the index: a row is highlighted when the label's index in
  \<^verbatim>\<open>prevRankings\<close> is not the row's index; while the animation is not complete such a
  row also shows an arrow, up when the previous index is greater and down otherwise.
  The up triangle is \<open>Advanced\<close>, the down triangle \<open>Declined\<close>.
\<close>

fun indexOf :: "string list \<Rightarrow> string \<Rightarrow> int" where
  "indexOf [] x = - 1"
| "indexOf (y # ys) x = (if y = x then 0 else if indexOf ys x = - 1 then - 1 else indexOf ys x + 1)"

datatype arrow = Advanced | Declined

definition rowArrow :: "state \<Rightarrow> string \<Rightarrow> nat \<Rightarrow> arrow option" where
  "rowArrow s label index =
     (if \<not> isAnimationComplete s \<and> indexOf (prevRankings s) label \<noteq> int index
      then Some (if indexOf (prevRankings s) label > int index then Advanced else Declined)
      else None)"

definition rankingRows :: "state \<Rightarrow> (string \<times> bool \<times> arrow option) list" where
  "rankingRows s =
     map (\<lambda>(index, label).
            (label, indexOf (prevRankings s) label \<noteq> int index, rowArrow s label index))
       (enumerate 0 (rankings s))"

section \<open>User events\<close>

text \<open>
  The buttons are rendered by state: Start when idle, Pause when running, Resume when
  paused, Reset when not idle. The speed slider has the range 0.1 to 2 and the parameter
  slider the range 0 to 1; a slider reports values of its range only. A frame is drawn
  by the animation loop or, outside the running state, once by each run of the effect.
\<close>

datatype event =
  Start | Pause | Resume | Reset | SpeedSlider real | ParameterSlider real | Frame real

fun enabled :: "event \<Rightarrow> state \<Rightarrow> bool" where
  "enabled Start s = (animationState s = Idle)"
| "enabled Pause s = (animationState s = Running)"
| "enabled Resume s = (animationState s = Paused)"
| "enabled Reset s = (animationState s \<noteq> Idle)"
| "enabled (SpeedSlider v) s = (0.1 \<le> v \<and> v \<le> 2)"
| "enabled (ParameterSlider v) s = (0 \<le> v \<and> v \<le> 1)"
| "enabled (Frame timestamp) s = True"

fun fire :: "event \<Rightarrow> state \<Rightarrow> state" where
  "fire Start s = handleStartAnimation s"
| "fire Pause s = handlePauseAnimation s"
| "fire Resume s = handleResumeAnimation s"
| "fire Reset s = handleResetAnimation s"
| "fire (SpeedSlider v) s = setAnimationSpeed v s"
| "fire (ParameterSlider v) s = setCycloidParameter v s"
| "fire (Frame timestamp) s = drawFrame timestamp s"

text \<open>A session: the events in order, None when one of them is not offered in its state.\<close>

fun session :: "state \<Rightarrow> event list \<Rightarrow> state option" where
  "session s [] = Some s"
| "session s (e # es) = (if enabled e s then session (fire e s) es else None)"

text \<open>
  What every session keeps: the completion flag is set in the idle state only, and both
  slider values stay in their ranges.
\<close>

definition sessionInv :: "state \<Rightarrow> bool" where
  "sessionInv s \<longleftrightarrow>
     (isAnimationComplete s \<longrightarrow> animationState s = Idle)
     \<and> 0.1 \<le> animationSpeed s \<and> animationSpeed s \<le> 2
     \<and> 0 \<le> cycloidParameter s \<and> cycloidParameter s \<le> 1"

section \<open>A running interval\<close>

text \<open>
  While \<^verbatim>\<open>animationState\<close> is running, the effect requests an animation frame and
  \<^verbatim>\<open>drawFrame\<close> requests the next one; in any other state no frame is requested.
  Between two frames the user may move either slider. A running interval is such a
  sequence of frames and slider moves; it yields, for every frame, the \<^verbatim>\<open>elapsedTime\<close>
  the frame computes and the cycloid parameter it draws with, and it ends with the frame
  that leaves the running state or with any other event.
\<close>

fun timestamps :: "event list \<Rightarrow> real list" where
  "timestamps [] = []"
| "timestamps (Frame timestamp # es) = timestamp # timestamps es"
| "timestamps (e # es) = timestamps es"

fun runningInterval :: "state \<Rightarrow> event list \<Rightarrow> (real \<times> real) list" where
  "runningInterval s [] = []"
| "runningInterval s (Frame timestamp # es) =
     (if animationState s = Running
      then (frameElapsed timestamp s, cycloidParameter s)
           # runningInterval (drawFrame timestamp s) es
      else [])"
| "runningInterval s (SpeedSlider v # es) =
     (if animationState s = Running \<and> enabled (SpeedSlider v) s
      then runningInterval (setAnimationSpeed v s) es
      else [])"
| "runningInterval s (ParameterSlider v # es) =
     (if animationState s = Running \<and> enabled (ParameterSlider v) s
      then runningInterval (setCycloidParameter v s) es
      else [])"
| "runningInterval s (e # es) = []"

section \<open>The speed slider\<close>

text \<open>
  Modelled from the spec: the \<^verbatim>\<open>Slider\<close> component (\<^verbatim>\<open>components/ui/slider\<close>) is not
  among the sources; only its use is, with the props \<^verbatim>\<open>min={0.1}\<close>, \<^verbatim>\<open>max={2}\<close>,
  \<^verbatim>\<open>value={[animationSpeed]}\<close> and \<^verbatim>\<open>onValueChange={([value]) => setAnimationSpeed(value)}\<close>.
  The spec says of a multiplier that is not accepted that it is rejected: a no-op, or
  clamped to a minimum positive value. Both readings are modelled: a requested value
  outside the range of the slider is either ignored, the current value being kept, or
  clamped into the range; what results is passed to the setter.
\<close>

datatype sliderPolicy = Ignore | Clamp

text \<open>
  Modelled from the spec: the value a slider with the range from \<open>lo\<close> to \<open>hi\<close> and the
  current value \<open>current\<close> passes to \<^verbatim>\<open>onValueChange\<close> when it is asked for \<open>requested\<close>.
\<close>

definition sliderValue :: "sliderPolicy \<Rightarrow> real \<Rightarrow> real \<Rightarrow> real \<Rightarrow> real \<Rightarrow> real" where
  "sliderValue policy lo hi current requested =
     (if lo \<le> requested \<and> requested \<le> hi then requested
      else case policy of Ignore \<Rightarrow> current | Clamp \<Rightarrow> max lo (min hi requested))"

text \<open>
  Modelled from the spec: the speed slider asked for a value; its props are those of the
  source, and its \<^verbatim>\<open>onValueChange\<close> is the call of the setter.
\<close>

definition speedSliderChange :: "sliderPolicy \<Rightarrow> real \<Rightarrow> state \<Rightarrow> state" where
  "speedSliderChange policy requested s =
     setAnimationSpeed (sliderValue policy 0.1 2 (animationSpeed s) requested) s"

section \<open>Auxiliary facts\<close>

subsection \<open>The sort is the identity\<close>

text \<open>Every key of the sort is 0, so the stable sort keeps the registry order.\<close>

lemma progressData_registry_order:
  "progressData e p = map (\<lambda>(label, c). (label, progress e c, 0)) (curves p)"
  by (simp add: progressData_def curves_def)

lemma newRankings_registry_order:
  "newRankings e p = [''Brachistochrone'', ''Straight Line'', ''Parabola'', ''Parametric Cycloid'']"
  by (simp add: newRankings_def progressData_registry_order curves_def)

lemma maxTime_eq: "maxTime p = max 2.5 (2 * (1 + p))"
  by (simp add: maxTime_def curves_def straightLine_def brachistochrone_def parabola_def
      parametricCycloid_def max_def)

subsection \<open>The state after a frame, field by field\<close>

lemma drawFrame_animationState:
  "animationState (drawFrame t s)
   = (if frameElapsed t s \<ge> maxTime (cycloidParameter s) then Idle else animationState s)"
  by (simp add: drawFrame_def Let_def setBaseline_def)

lemma drawFrame_pausedElapsedTime:
  "pausedElapsedTime (drawFrame t s)
   = (if frameElapsed t s < maxTime (cycloidParameter s) \<and> animationState s = Running
      then frameElapsed t s else pausedElapsedTime s)"
  by (simp add: drawFrame_def Let_def setBaseline_def)

lemma drawFrame_lastTimestampRef:
  "lastTimestampRef (drawFrame t s)
   = (if animationState s = Running \<or> startTimeRef s = None then Some t else lastTimestampRef s)"
  by (auto simp add: drawFrame_def Let_def setBaseline_def)

lemma drawFrame_startTimeRef:
  "startTimeRef (drawFrame t s) = (if startTimeRef s = None then Some t else startTimeRef s)"
  by (simp add: drawFrame_def Let_def setBaseline_def)

lemma drawFrame_isAnimationComplete:
  "isAnimationComplete (drawFrame t s)
   = (frameElapsed t s \<ge> maxTime (cycloidParameter s) \<or> isAnimationComplete s)"
  by (simp add: drawFrame_def Let_def setBaseline_def)

lemma drawFrame_rankings:
  "rankings (drawFrame t s) = [''Brachistochrone'', ''Straight Line'', ''Parabola'', ''Parametric Cycloid'']"
  by (simp add: drawFrame_def Let_def setBaseline_def newRankings_registry_order)

lemma drawFrame_prevRankings:
  "prevRankings (drawFrame t s)
   = (if rankings s = [''Brachistochrone'', ''Straight Line'', ''Parabola'', ''Parametric Cycloid'']
      then prevRankings s else rankings s)"
  by (simp add: drawFrame_def Let_def setBaseline_def newRankings_registry_order)

lemma drawFrame_elapsedTimes:
  "elapsedTimes (drawFrame t s)
   = updateElapsedTimes (frameElapsed t s) (cycloidParameter s) (elapsedTimes s)"
  by (simp add: drawFrame_def Let_def setBaseline_def)

lemma drawFrame_cycloidParameter: "cycloidParameter (drawFrame t s) = cycloidParameter s"
  by (simp add: drawFrame_def Let_def setBaseline_def)

lemma drawFrame_animationSpeed: "animationSpeed (drawFrame t s) = animationSpeed s"
  by (simp add: drawFrame_def Let_def setBaseline_def)

lemmas drawFrame_fields =
  drawFrame_animationState drawFrame_pausedElapsedTime drawFrame_lastTimestampRef
  drawFrame_startTimeRef drawFrame_isAnimationComplete drawFrame_rankings
  drawFrame_prevRankings drawFrame_cycloidParameter drawFrame_animationSpeed

lemma frameElapsed_eq:
  "frameElapsed t s
   = (if animationState s = Running
      then pausedElapsedTime s
           + (t - (if startTimeRef s = None then orElse (Some t) t else orElse (lastTimestampRef s) t))
             / 1000 * animationSpeed s
      else pausedElapsedTime s)"
  by (simp add: frameElapsed_def setBaseline_def Let_def)

lemmas handlers =
  handleStartAnimation_def handlePauseAnimation_def handleResumeAnimation_def
  handleResetAnimation_def setAnimationSpeed_def setCycloidParameter_def

subsection \<open>A running example\<close>

text \<open>
  The session used in the examples: the frame drawn on mount, a start, and the frames at
  1000 ms and 3000 ms (elapsed time 1 at speed 0.5); further on, a frame at 5980 ms
  instead (elapsed time 2.49).
\<close>

lemma started_state:
  "handleStartAnimation (drawFrame 0 initialState)
   = \<lparr> animationState = Running, animationSpeed = 0.5, cycloidParameter = 0.2,
       elapsedTimes = Map.empty,
       rankings = [''Brachistochrone'', ''Straight Line'', ''Parabola'', ''Parametric Cycloid''],
       prevRankings = [], startTimeRef = None, isAnimationComplete = False,
       pausedElapsedTime = 0, lastTimestampRef = None \<rparr>"
  by (simp add: handleStartAnimation_def drawFrame_def Let_def setBaseline_def initialState_def
      frameElapsed_def maxTime_eq newRankings_registry_order)

lemma midrun_fields:
  "animationState (drawFrame 3000 (drawFrame 1000 (handleStartAnimation (drawFrame 0 initialState)))) = Running"
  "pausedElapsedTime (drawFrame 3000 (drawFrame 1000 (handleStartAnimation (drawFrame 0 initialState)))) = 1"
  "cycloidParameter (drawFrame 3000 (drawFrame 1000 (handleStartAnimation (drawFrame 0 initialState)))) = 0.2"
  "isAnimationComplete (drawFrame 3000 (drawFrame 1000 (handleStartAnimation (drawFrame 0 initialState)))) = False"
  "prevRankings (drawFrame 3000 (drawFrame 1000 (handleStartAnimation (drawFrame 0 initialState)))) = []"
  "frameElapsed 3000 (drawFrame 1000 (handleStartAnimation (drawFrame 0 initialState))) = 1"
  by (simp_all add: started_state drawFrame_fields frameElapsed_eq orElse_def maxTime_eq)

lemma midrun_session:
  "session initialState [Frame 0, Start, Frame 1000, Frame 3000]
   = Some (drawFrame 3000 (drawFrame 1000 (handleStartAnimation (drawFrame 0 initialState))))"
  by (simp add: started_state drawFrame_fields frameElapsed_eq orElse_def maxTime_eq)
    (simp add: initialState_def)

lemma late_fields:
  "animationState (drawFrame 5980 (drawFrame 1000 (handleStartAnimation (drawFrame 0 initialState)))) = Running"
  "pausedElapsedTime (drawFrame 5980 (drawFrame 1000 (handleStartAnimation (drawFrame 0 initialState)))) = 2.49"
  "cycloidParameter (drawFrame 5980 (drawFrame 1000 (handleStartAnimation (drawFrame 0 initialState)))) = 0.2"
  "animationSpeed (drawFrame 5980 (drawFrame 1000 (handleStartAnimation (drawFrame 0 initialState)))) = 0.5"
  "startTimeRef (drawFrame 5980 (drawFrame 1000 (handleStartAnimation (drawFrame 0 initialState)))) = Some 1000"
  "lastTimestampRef (drawFrame 5980 (drawFrame 1000 (handleStartAnimation (drawFrame 0 initialState)))) = Some 5980"
  by (simp_all add: started_state drawFrame_fields frameElapsed_eq orElse_def maxTime_eq)

subsection \<open>The time strings\<close>

lemma updateElapsedTimes_entry:
  assumes "(label, c) \<in> set (curves p)"
  shows "updateElapsedTimes e p prev label
         = Some (if progress e c < 1 then toFixed2 e else toFixed2 (time c))"
  using assms
  by (auto simp add: updateElapsedTimes_def progressData_registry_order newTimesStep_def curves_def)

subsection \<open>Frames outside the running state\<close>

lemma drawFrame_not_running:
  assumes "animationState s \<noteq> Running"
  shows "pausedElapsedTime (drawFrame t s) = pausedElapsedTime s"
    and "animationState (drawFrame t s) \<noteq> Running"
    and "frameElapsed t s = pausedElapsedTime s"
  using assms by (simp_all add: drawFrame_fields frameElapsed_eq)

lemma static_frames:
  assumes "animationState s \<noteq> Running"
  shows "pausedElapsedTime (fold drawFrame ts s) = pausedElapsedTime s
         \<and> animationState (fold drawFrame ts s) \<noteq> Running"
  using assms
proof (induction ts arbitrary: s)
  case Nil
  then show ?case by simp
next
  case (Cons t ts)
  from Cons.prems have "animationState (drawFrame t s) \<noteq> Running"
    by (rule drawFrame_not_running)
  from Cons.IH [OF this] Cons.prems show ?case
    by (simp add: drawFrame_not_running)
qed

lemma resumed_frame:
  assumes "lastTimestampRef s = None" and "animationState s = Running"
  shows "frameElapsed t s = pausedElapsedTime s"
    and "pausedElapsedTime (drawFrame t s) = pausedElapsedTime s"
    and "lastTimestampRef (drawFrame t s) = Some t"
    and "startTimeRef (drawFrame t s) \<noteq> None"
  using assms
  by (simp_all add: frameElapsed_eq drawFrame_fields orElse_def)

subsection \<open>The balls of a frame\<close>

lemma isBall_ball: "isBall (ball c t)"
  by (simp add: ball_def split: prod.split)

lemma progress_zero: "progress 0 c = 0"
  by (simp add: progress_def)

lemma static_balls:
  "filter isBall (drawStaticElements s)
   = (if animationState s = Running then []
      else map (\<lambda>(label, c). ball c 0) (curves (cycloidParameter s)))"
  by (simp add: drawStaticElements_def isBall_ball curves_def)

lemma frameOps_balls:
  "filter isBall (frameOps t s)
   = (if animationState s = Running then []
      else map (\<lambda>(label, c). ball c 0) (curves (cycloidParameter s)))
     @ map (\<lambda>(label, c). ball c (progress (frameElapsed t s) c)) (curves (cycloidParameter s))
     @ map (\<lambda>(label, c). ball c (progress (frameElapsed t s) c)) (curves (cycloidParameter s))"
  by (simp add: frameOps_def Let_def static_balls progressData_registry_order)
    (simp add: curves_def isBall_ball)

subsection \<open>Sessions\<close>

lemma sessionInv_initial: "sessionInv initialState"
  by (simp add: sessionInv_def initialState_def)

lemma sessionInv_fire:
  assumes "sessionInv s" and "enabled e s"
  shows "sessionInv (fire e s)"
  using assms
  by (cases e) (auto simp add: sessionInv_def handlers drawFrame_fields)

lemma sessionInv_session:
  assumes "sessionInv s" and "session s es = Some s'"
  shows "sessionInv s'"
  using assms
proof (induction es arbitrary: s)
  case Nil
  then show ?case by simp
next
  case (Cons e es)
  from Cons.prems(2) have en: "enabled e s" and rest: "session (fire e s) es = Some s'"
    by (simp_all split: if_splits)
  from Cons.IH [OF sessionInv_fire [OF Cons.prems(1) en] rest] show ?case .
qed

subsection \<open>The index of a label\<close>

lemma indexOf_lower: "- 1 \<le> indexOf xs x"
  by (induction xs) auto

lemma indexOf_absent: "indexOf xs x = - 1 \<longleftrightarrow> x \<notin> set xs"
proof (induction xs)
  case Nil
  show ?case by simp
next
  case (Cons y ys)
  have "- 1 \<le> indexOf ys x" by (rule indexOf_lower)
  with Cons show ?case by auto
qed

lemma rankingRows_nth:
  assumes "i < length (rankings s)"
  shows "rankingRows s ! i
         = (rankings s ! i, indexOf (prevRankings s) (rankings s ! i) \<noteq> int i,
            rowArrow s (rankings s ! i) i)"
  using assms by (simp add: rankingRows_def nth_enumerate_eq)

subsection \<open>Running intervals\<close>

lemma runningInterval_not_running:
  assumes "animationState s \<noteq> Running"
  shows "runningInterval s es = []"
  using assms by (cases "(s, es)" rule: runningInterval.cases) simp_all

lemma runningInterval_lower_sorted:
  assumes "0 \<le> animationSpeed s" and "0 \<le> cycloidParameter s" and "sorted (timestamps es)"
    and "startTimeRef s = None \<or> (\<forall>t\<in>set (timestamps es). orElse (lastTimestampRef s) t \<le> t)"
  shows "(\<forall>x\<in>set (runningInterval s es). pausedElapsedTime s \<le> fst x \<and> 0 \<le> snd x)
         \<and> sorted (map fst (runningInterval s es))"
  using assms
proof (induction es arbitrary: s)
  case Nil
  show ?case by simp
next
  case (Cons ev es)
  show ?case
  proof (cases "animationState s = Running")
    case False
    then show ?thesis by (simp add: runningInterval_not_running)
  next
    case True
    show ?thesis
    proof (cases ev)
      case (Frame t)
      define e where "e = frameElapsed t s"
      define s' where "s' = drawFrame t s"
      have ts: "timestamps (ev # es) = t # timestamps es"
        by (simp add: Frame)
      have base: "(if startTimeRef s = None then orElse (Some t) t else orElse (lastTimestampRef s) t) \<le> t"
        using Cons.prems(4) by (auto simp add: ts orElse_def)
      have "0 \<le> (t - (if startTimeRef s = None then orElse (Some t) t else orElse (lastTimestampRef s) t))
               / 1000 * animationSpeed s"
        using base Cons.prems(1) by simp
      then have e_lower: "pausedElapsedTime s \<le> e"
        using True by (simp add: e_def frameElapsed_eq)
      have speed': "0 \<le> animationSpeed s'" and param': "0 \<le> cycloidParameter s'"
        using Cons.prems(1) Cons.prems(2)
        by (simp_all add: s'_def drawFrame_animationSpeed drawFrame_cycloidParameter)
      have sorted': "sorted (timestamps es)" and after: "\<forall>t'\<in>set (timestamps es). t \<le> t'"
        using Cons.prems(3) by (simp_all add: ts)
      have "lastTimestampRef s' = Some t"
        using True by (simp add: s'_def drawFrame_lastTimestampRef)
      with after
      have base': "startTimeRef s' = None \<or> (\<forall>t'\<in>set (timestamps es). orElse (lastTimestampRef s') t' \<le> t')"
        by (simp add: orElse_def)
      from Cons.IH [OF speed' param' sorted' base']
      have ih: "\<forall>x\<in>set (runningInterval s' es). pausedElapsedTime s' \<le> fst x \<and> 0 \<le> snd x"
        and ih_sorted: "sorted (map fst (runningInterval s' es))"
        by simp_all
      have rest: "\<forall>x\<in>set (runningInterval s' es). e \<le> fst x"
      proof (cases "animationState s' = Running")
        case False
        then show ?thesis by (simp add: runningInterval_not_running)
      next
        case running': True
        then have "pausedElapsedTime s' = e"
          using True by (simp add: s'_def e_def drawFrame_animationState drawFrame_pausedElapsedTime
              split: if_splits)
        with ih show ?thesis by simp
      qed
      have loop: "runningInterval s (ev # es) = (e, cycloidParameter s) # runningInterval s' es"
        using True by (simp add: e_def s'_def Frame)
      from e_lower rest ih ih_sorted Cons.prems(2) show ?thesis
        unfolding loop by auto
    next
      case (SpeedSlider v)
      show ?thesis
      proof (cases "enabled (SpeedSlider v) s")
        case False
        then show ?thesis by (auto simp add: SpeedSlider)
      next
        case en: True
        have ts: "timestamps (ev # es) = timestamps es"
          by (simp add: SpeedSlider)
        have loop: "runningInterval s (ev # es) = runningInterval (setAnimationSpeed v s) es"
          using True en by (simp add: SpeedSlider)
        have "0 \<le> animationSpeed (setAnimationSpeed v s)"
          using en by (simp add: setAnimationSpeed_def)
        moreover have "0 \<le> cycloidParameter (setAnimationSpeed v s)"
          using Cons.prems(2) by (simp add: setAnimationSpeed_def)
        moreover have "sorted (timestamps es)"
          using Cons.prems(3) by (simp add: ts)
        moreover have "startTimeRef (setAnimationSpeed v s) = None
            \<or> (\<forall>t\<in>set (timestamps es). orElse (lastTimestampRef (setAnimationSpeed v s)) t \<le> t)"
          using Cons.prems(4) by (simp add: ts setAnimationSpeed_def)
        ultimately show ?thesis
          unfolding loop using Cons.IH [of "setAnimationSpeed v s"]
          by (simp add: setAnimationSpeed_def)
      qed
    next
      case (ParameterSlider v)
      show ?thesis
      proof (cases "enabled (ParameterSlider v) s")
        case False
        then show ?thesis by (auto simp add: ParameterSlider)
      next
        case en: True
        have ts: "timestamps (ev # es) = timestamps es"
          by (simp add: ParameterSlider)
        have loop: "runningInterval s (ev # es) = runningInterval (setCycloidParameter v s) es"
          using True en by (simp add: ParameterSlider)
        have "0 \<le> animationSpeed (setCycloidParameter v s)"
          using Cons.prems(1) by (simp add: setCycloidParameter_def)
        moreover have "0 \<le> cycloidParameter (setCycloidParameter v s)"
          using en by (simp add: setCycloidParameter_def)
        moreover have "sorted (timestamps es)"
          using Cons.prems(3) by (simp add: ts)
        moreover have "startTimeRef (setCycloidParameter v s) = None
            \<or> (\<forall>t\<in>set (timestamps es). orElse (lastTimestampRef (setCycloidParameter v s)) t \<le> t)"
          using Cons.prems(4) by (simp add: ts setCycloidParameter_def)
        ultimately show ?thesis
          unfolding loop using Cons.IH [of "setCycloidParameter v s"]
          by (simp add: setCycloidParameter_def)
      qed
    qed (simp_all)
  qed
qed

lemma progress_mono:
  assumes "0 \<le> time c" and "e1 \<le> e2"
  shows "progress e1 c \<le> progress e2 c"
proof -
  from assms have "e1 / time c \<le> e2 / time c"
    by (simp add: divide_right_mono)
  then show ?thesis
    by (simp add: progress_def min_le_iff_disj)
qed

lemma progress_parametricCycloid_mono:
  assumes "0 \<le> e1" and "e1 \<le> e2" and "0 \<le> q" and "q \<le> p"
  shows "progress e1 (parametricCycloid p) \<le> progress e2 (parametricCycloid q)"
proof -
  from assms have "e1 / (2 * (1 + p)) \<le> e2 / (2 * (1 + q))"
    by (intro frac_le) simp_all
  then show ?thesis
    by (simp add: progress_def parametricCycloid_def min_le_iff_disj)
qed

lemma sorted_progress:
  assumes "sorted (map fst xs)" and "0 \<le> time c"
  shows "sorted (map (\<lambda>x. progress (fst x) c) xs)"
proof -
  from assms(1) have "sorted_wrt (\<lambda>x y. fst x \<le> fst y) xs"
    by (simp add: sorted_map)
  then have "sorted_wrt (\<lambda>x y. progress (fst x) c \<le> progress (fst y) c) xs"
    by (rule sorted_wrt_mono_rel [rotated]) (simp add: progress_mono [OF assms(2)])
  then show ?thesis
    by (simp add: sorted_map)
qed

subsection \<open>What sessions store as the previous ranking\<close>

lemma session_prevRankings:
  assumes "session s0 es = Some s" and "prevRankings s0 = []"
    and "rankings s0 = []
         \<or> rankings s0 = [''Brachistochrone'', ''Straight Line'', ''Parabola'', ''Parametric Cycloid'']"
  shows "prevRankings s = []"
  using assms
proof (induction es arbitrary: s0)
  case Nil
  then show ?case by simp
next
  case (Cons e es)
  from Cons.prems(1) have rest: "session (fire e s0) es = Some s"
    by (simp split: if_splits)
  have "prevRankings (fire e s0) = []
        \<and> (rankings (fire e s0) = []
           \<or> rankings (fire e s0) = [''Brachistochrone'', ''Straight Line'', ''Parabola'', ''Parametric Cycloid''])"
    using Cons.prems(2) Cons.prems(3)
    by (cases e) (auto simp add: handlers drawFrame_rankings drawFrame_prevRankings)
  with Cons.IH [OF rest] show ?case by blast
qed

lemma session_rows_all_declined:
  assumes "session initialState es = Some s" and "\<not> isAnimationComplete s"
    and "i < length (rankings s)"
  shows "rankingRows s ! i = (rankings s ! i, True, Some Declined)"
proof -
  have "prevRankings s = []"
    using session_prevRankings [OF assms(1)] by (simp add: initialState_def)
  with assms(2) rankingRows_nth [OF assms(3)] show ?thesis
    by (simp add: rowArrow_def)
qed

subsection \<open>The frame after the completing frame\<close>

lemma finished_entry_in_frame:
  assumes "(label, c) \<in> set (curves (cycloidParameter s))"
    and "\<not> progress (frameElapsed t s) c < 1"
  shows "elapsedTimes (drawFrame t s) label = Some (toFixed2 (time c))"
  using assms by (simp add: drawFrame_elapsedTimes updateElapsedTimes_entry)

lemma frame_after_completion:
  assumes "(label, c) \<in> set (curves (cycloidParameter s))"
    and "animationState s = Running"
    and "maxTime (cycloidParameter s) \<le> frameElapsed t s"
    and "progress (pausedElapsedTime s) c < 1"
  shows "animationState (drawFrame t s) = Idle"
    and "isAnimationComplete (drawFrame t s)"
    and "elapsedTimes (drawFrame t' (drawFrame t s)) label = Some (toFixed2 (pausedElapsedTime s))"
proof -
  show idle: "animationState (drawFrame t s) = Idle"
    using assms(3) by (simp add: drawFrame_animationState)
  show "isAnimationComplete (drawFrame t s)"
    using assms(3) by (simp add: drawFrame_isAnimationComplete)
  have p: "pausedElapsedTime (drawFrame t s) = pausedElapsedTime s"
    using assms(3) by (simp add: drawFrame_pausedElapsedTime)
  have e: "frameElapsed t' (drawFrame t s) = pausedElapsedTime s"
    using idle by (simp add: frameElapsed_eq p)
  have m: "(label, c) \<in> set (curves (cycloidParameter (drawFrame t s)))"
    using assms(1) by (simp add: drawFrame_cycloidParameter)
  from updateElapsedTimes_entry [OF m] assms(4) show
    "elapsedTimes (drawFrame t' (drawFrame t s)) label = Some (toFixed2 (pausedElapsedTime s))"
    by (simp add: drawFrame_elapsedTimes e)
qed

subsection \<open>The speed slider\<close>

lemma sliderValue_in_range:
  assumes "lo \<le> hi" and "lo \<le> current" and "current \<le> hi"
  shows "lo \<le> sliderValue policy lo hi current requested
         \<and> sliderValue policy lo hi current requested \<le> hi"
  using assms by (cases policy) (auto simp add: sliderValue_def)

lemma session_append:
  assumes "session s0 es = Some s"
  shows "session s0 (es @ es') = session s es'"
  using assms by (induction es arbitrary: s0) (auto split: if_splits)

section \<open>Properties\<close>

subsection \<open>Ranking\<close>

text \<open>
  C1: the ranking should order the curves by descending progress. After a start and the
  frames at 1000 ms and 3000 ms (speed 0.5), the frame computes an elapsed time of 1 and
  the progress values 1/2, 2/5, 10/21 and 5/12 in registry order; the ranking it stores
  is the registry order, with Straight Line (2/5) ahead of Parabola (10/21) and of
  Parametric Cycloid (5/12).
\<close>

theorem ranking_is_registry_order_midrun:
  "frameElapsed 3000 (drawFrame 1000 (handleStartAnimation (drawFrame 0 initialState))) = 1
   \<and> progressData 1 0.2 =
        [(''Brachistochrone'', 1 / 2, 0), (''Straight Line'', 2 / 5, 0),
         (''Parabola'', 10 / 21, 0), (''Parametric Cycloid'', 5 / 12, 0)]
   \<and> progress 1 straightLine < progress 1 parabola
   \<and> rankings (drawFrame 3000 (drawFrame 1000 (handleStartAnimation (drawFrame 0 initialState))))
        = [''Brachistochrone'', ''Straight Line'', ''Parabola'', ''Parametric Cycloid'']"
proof (intro conjI)
  show "frameElapsed 3000 (drawFrame 1000 (handleStartAnimation (drawFrame 0 initialState))) = 1"
    by (rule midrun_fields)
  show "progressData 1 0.2 =
        [(''Brachistochrone'', 1 / 2, 0), (''Straight Line'', 2 / 5, 0),
         (''Parabola'', 10 / 21, 0), (''Parametric Cycloid'', 5 / 12, 0)]"
    by (simp add: progressData_registry_order curves_def progress_def brachistochrone_def
        straightLine_def parabola_def parametricCycloid_def)
  show "progress 1 straightLine < progress 1 parabola"
    by (simp add: progress_def straightLine_def parabola_def)
  show "rankings (drawFrame 3000 (drawFrame 1000 (handleStartAnimation (drawFrame 0 initialState))))
        = [''Brachistochrone'', ''Straight Line'', ''Parabola'', ''Parametric Cycloid'']"
    by (rule drawFrame_rankings)
qed

subsection \<open>Reset\<close>

text \<open>
  C2, as amended: in every state a session reaches in which the Reset button is offered
  (running or paused), the reset handler sets the state to idle, zeroes the accumulated
  elapsed time, clears both clock baselines and empties the elapsed-time record, and the
  completion flag is clear afterwards; the ranking list and the previous ranking list
  are left as they were.
\<close>

theorem reset_clears_clock_and_keeps_rankings:
  assumes "session initialState es = Some s" and "enabled Reset s"
  shows "animationState (handleResetAnimation s) = Idle
         \<and> pausedElapsedTime (handleResetAnimation s) = 0
         \<and> startTimeRef (handleResetAnimation s) = None
         \<and> lastTimestampRef (handleResetAnimation s) = None
         \<and> isAnimationComplete (handleResetAnimation s) = False
         \<and> elapsedTimes (handleResetAnimation s) = Map.empty
         \<and> rankings (handleResetAnimation s) = rankings s
         \<and> prevRankings (handleResetAnimation s) = prevRankings s"
proof -
  from sessionInv_session [OF sessionInv_initial assms(1)] assms(2)
  have "\<not> isAnimationComplete s"
    by (auto simp add: sessionInv_def)
  then show ?thesis
    by (simp add: handleResetAnimation_def)
qed

text \<open>The session mount, start, frames at 1000 ms and 3000 ms, then Reset.\<close>

theorem reset_clears_clock_and_keeps_rankings_witness:
  "session initialState [Frame 0, Start, Frame 1000, Frame 3000]
     = Some (drawFrame 3000 (drawFrame 1000 (handleStartAnimation (drawFrame 0 initialState))))
   \<and> enabled Reset (drawFrame 3000 (drawFrame 1000 (handleStartAnimation (drawFrame 0 initialState))))
   \<and> animationState (handleResetAnimation
        (drawFrame 3000 (drawFrame 1000 (handleStartAnimation (drawFrame 0 initialState))))) = Idle
   \<and> pausedElapsedTime (handleResetAnimation
        (drawFrame 3000 (drawFrame 1000 (handleStartAnimation (drawFrame 0 initialState))))) = 0
   \<and> isAnimationComplete (handleResetAnimation
        (drawFrame 3000 (drawFrame 1000 (handleStartAnimation (drawFrame 0 initialState))))) = False
   \<and> rankings (handleResetAnimation
        (drawFrame 3000 (drawFrame 1000 (handleStartAnimation (drawFrame 0 initialState)))))
       = [''Brachistochrone'', ''Straight Line'', ''Parabola'', ''Parametric Cycloid'']"
proof -
  have en: "enabled Reset (drawFrame 3000 (drawFrame 1000 (handleStartAnimation (drawFrame 0 initialState))))"
    by (simp add: midrun_fields)
  from reset_clears_clock_and_keeps_rankings [OF midrun_session en] midrun_session en
  show ?thesis
    by (simp add: drawFrame_rankings)
qed

text \<open>
  The claim as stated fails: after a reset in the running state the ranking list still
  holds the four names, while the initial ranking list is empty.
\<close>

theorem reset_keeps_rankings_counterexample:
  "enabled Reset (drawFrame 3000 (drawFrame 1000 (handleStartAnimation (drawFrame 0 initialState))))
   \<and> rankings (handleResetAnimation
        (drawFrame 3000 (drawFrame 1000 (handleStartAnimation (drawFrame 0 initialState)))))
       = [''Brachistochrone'', ''Straight Line'', ''Parabola'', ''Parametric Cycloid'']
   \<and> rankings initialState = []"
  by (simp add: midrun_fields handleResetAnimation_def drawFrame_rankings)
    (simp add: initialState_def)

subsection \<open>Balls outside the running state\<close>

text \<open>
  C3, as amended: a frame drawn while the state is not running draws, for every curve,
  a ball at progress 0 and then, twice, a ball at the curve's progress for the stored
  elapsed time; these are all the balls of the frame. When the stored elapsed time is 0
  (idle before a start, or after a reset) every ball is therefore at a start position;
  a paused frame shows the balls at their paused progress as well.
\<close>

theorem not_running_frame_balls:
  assumes "animationState s \<noteq> Running"
  shows "filter isBall (frameOps t s)
         = map (\<lambda>(label, c). ball c 0) (curves (cycloidParameter s))
           @ map (\<lambda>(label, c). ball c (progress (pausedElapsedTime s) c)) (curves (cycloidParameter s))
           @ map (\<lambda>(label, c). ball c (progress (pausedElapsedTime s) c)) (curves (cycloidParameter s))
         \<and> (pausedElapsedTime s = 0 \<longrightarrow>
              set (filter isBall (frameOps t s))
              = set (map (\<lambda>(label, c). ball c 0) (curves (cycloidParameter s))))"
proof -
  have e: "frameElapsed t s = pausedElapsedTime s"
    using assms by (simp add: frameElapsed_eq)
  have l: "filter isBall (frameOps t s)
         = map (\<lambda>(label, c). ball c 0) (curves (cycloidParameter s))
           @ map (\<lambda>(label, c). ball c (progress (pausedElapsedTime s) c)) (curves (cycloidParameter s))
           @ map (\<lambda>(label, c). ball c (progress (pausedElapsedTime s) c)) (curves (cycloidParameter s))"
    using assms by (simp only: frameOps_balls e if_False)
  show ?thesis
    unfolding l by (simp add: progress_zero)
qed

text \<open>The first frame of the idle component, and a frame of a run paused at 1 second.\<close>

theorem not_running_frame_balls_witness:
  "animationState initialState \<noteq> Running \<and> pausedElapsedTime initialState = 0
   \<and> set (filter isBall (frameOps 0 initialState))
       = set (map (\<lambda>(label, c). ball c 0) (curves 0.2))
   \<and> filter isBall (frameOps 4000 (handlePauseAnimation
        (drawFrame 3000 (drawFrame 1000 (handleStartAnimation (drawFrame 0 initialState))))))
       = map (\<lambda>(label, c). ball c 0) (curves 0.2)
         @ map (\<lambda>(label, c). ball c (progress 1 c)) (curves 0.2)
         @ map (\<lambda>(label, c). ball c (progress 1 c)) (curves 0.2)"
proof -
  have a: "animationState initialState \<noteq> Running" "pausedElapsedTime initialState = 0"
    "cycloidParameter initialState = 0.2"
    by (simp_all add: initialState_def)
  have b: "animationState (handlePauseAnimation
        (drawFrame 3000 (drawFrame 1000 (handleStartAnimation (drawFrame 0 initialState))))) \<noteq> Running"
    by (simp add: handlePauseAnimation_def)
  have c: "pausedElapsedTime (handlePauseAnimation
        (drawFrame 3000 (drawFrame 1000 (handleStartAnimation (drawFrame 0 initialState))))) = 1"
     "cycloidParameter (handlePauseAnimation
        (drawFrame 3000 (drawFrame 1000 (handleStartAnimation (drawFrame 0 initialState))))) = 0.2"
    by (simp_all add: handlePauseAnimation_def midrun_fields)
  note w1 = not_running_frame_balls [OF a(1), of 0, THEN conjunct2, THEN mp, OF a(2), unfolded a(3)]
  note w2 = not_running_frame_balls [OF b, of 4000, THEN conjunct1, unfolded c]
  from a(1) a(2) w1 w2 show ?thesis
    by (intro conjI)
qed

text \<open>
  The claim as stated fails: in the run paused at 1 second, the frame draws the ball of
  the straight line at its progress 2/5, the canvas point (288, 168), which is not its
  start position (40, 40).
\<close>

theorem paused_frame_ball_counterexample:
  "animationState (handlePauseAnimation
      (drawFrame 3000 (drawFrame 1000 (handleStartAnimation (drawFrame 0 initialState))))) = Paused
   \<and> Ball 288 168 ''#ef4444''
       \<in> set (frameOps 4000 (handlePauseAnimation
            (drawFrame 3000 (drawFrame 1000 (handleStartAnimation (drawFrame 0 initialState))))))
   \<and> ball straightLine 0 = Ball 40 40 ''#ef4444''"
proof -
  have b: "ball straightLine (progress 1 straightLine) = Ball 288 168 ''#ef4444''"
    by (simp add: ball_def progress_def straightLine_def marginLeft_def marginTop_def
        graphWidth_def graphHeight_def)
  have e: "frameElapsed 4000 (handlePauseAnimation
            (drawFrame 3000 (drawFrame 1000 (handleStartAnimation (drawFrame 0 initialState))))) = 1"
    by (simp add: frameElapsed_eq handlePauseAnimation_def midrun_fields)
  have m: "(''Straight Line'', straightLine) \<in> set (curves p)" for p
    by (simp add: curves_def)
  have "ball straightLine (progress 1 straightLine)
       \<in> set (frameOps 4000 (handlePauseAnimation
            (drawFrame 3000 (drawFrame 1000 (handleStartAnimation (drawFrame 0 initialState))))))"
    unfolding frameOps_def Let_def e using m by force
  moreover have "ball straightLine 0 = Ball 40 40 ''#ef4444''"
    by (simp add: ball_def straightLine_def marginLeft_def marginTop_def)
  ultimately show ?thesis
    by (simp add: handlePauseAnimation_def b)
qed

subsection \<open>The cycloid parameter\<close>

text \<open>
  C4, as amended: a change of the cycloid parameter is applied at once in every state,
  the running state included. The state stays what it was and the elapsed time of the
  next frame is not affected, but that frame already uses the new parameter: the
  registry entry is the curve of the new parameter with duration 2 (1 + v), its time
  string and its ball are computed from that curve, and the completion test compares
  against the new maximal duration.
\<close>

theorem parameter_change_applies_at_once:
  "animationState (setCycloidParameter v s) = animationState s
   \<and> frameElapsed t (setCycloidParameter v s) = frameElapsed t s
   \<and> map_of (curves (cycloidParameter (setCycloidParameter v s))) ''Parametric Cycloid''
       = Some (parametricCycloid v)
   \<and> time (parametricCycloid v) = 2 * (1 + v)
   \<and> elapsedTimes (drawFrame t (setCycloidParameter v s)) ''Parametric Cycloid''
       = Some (if progress (frameElapsed t s) (parametricCycloid v) < 1
               then toFixed2 (frameElapsed t s) else toFixed2 (2 * (1 + v)))
   \<and> ball (parametricCycloid v) (progress (frameElapsed t s) (parametricCycloid v))
       \<in> set (frameOps t (setCycloidParameter v s))
   \<and> animationState (drawFrame t (setCycloidParameter v s))
       = (if frameElapsed t s \<ge> max 2.5 (2 * (1 + v)) then Idle else animationState s)"
proof -
  have e: "frameElapsed t (setCycloidParameter v s) = frameElapsed t s"
    by (simp add: frameElapsed_eq setCycloidParameter_def)
  have p: "cycloidParameter (setCycloidParameter v s) = v"
    and a: "animationState (setCycloidParameter v s) = animationState s"
    by (simp_all add: setCycloidParameter_def)
  have m: "(''Parametric Cycloid'', parametricCycloid v) \<in> set (curves v)"
    by (simp add: curves_def)
  have l: "map_of (curves v) ''Parametric Cycloid'' = Some (parametricCycloid v)"
    by (simp add: curves_def)
  have tm: "time (parametricCycloid v) = 2 * (1 + v)"
    by (simp add: parametricCycloid_def)
  have et: "elapsedTimes (drawFrame t (setCycloidParameter v s)) ''Parametric Cycloid''
       = Some (if progress (frameElapsed t s) (parametricCycloid v) < 1
               then toFixed2 (frameElapsed t s) else toFixed2 (2 * (1 + v)))"
    using updateElapsedTimes_entry [OF m] by (simp add: drawFrame_elapsedTimes e p tm)
  have b: "ball (parametricCycloid v) (progress (frameElapsed t s) (parametricCycloid v))
       \<in> set (frameOps t (setCycloidParameter v s))"
    unfolding frameOps_def Let_def e p using m by force
  have st: "animationState (drawFrame t (setCycloidParameter v s))
       = (if frameElapsed t s \<ge> max 2.5 (2 * (1 + v)) then Idle else animationState s)"
    by (simp only: drawFrame_animationState e p a maxTime_eq)
  from a e l tm et b st show ?thesis
    unfolding p by (intro conjI)
qed

text \<open>
  The claim as stated fails: in a run that has reached 2.49 seconds with parameter 0.2,
  the frame at 6100 ms ends the animation and shows 2.40 for the parametric cycloid; when
  the slider is moved to 1 before that frame, the same frame keeps running and shows 2.55.
\<close>

theorem parameter_change_midrun_counterexample:
  "animationState (drawFrame 5980 (drawFrame 1000 (handleStartAnimation (drawFrame 0 initialState)))) = Running
   \<and> animationState (drawFrame 6100
        (drawFrame 5980 (drawFrame 1000 (handleStartAnimation (drawFrame 0 initialState))))) = Idle
   \<and> animationState (drawFrame 6100 (setCycloidParameter 1
        (drawFrame 5980 (drawFrame 1000 (handleStartAnimation (drawFrame 0 initialState)))))) = Running
   \<and> elapsedTimes (drawFrame 6100
        (drawFrame 5980 (drawFrame 1000 (handleStartAnimation (drawFrame 0 initialState)))))
        ''Parametric Cycloid'' = Some ''2.40''
   \<and> elapsedTimes (drawFrame 6100 (setCycloidParameter 1
        (drawFrame 5980 (drawFrame 1000 (handleStartAnimation (drawFrame 0 initialState))))))
        ''Parametric Cycloid'' = Some ''2.55''"
proof -
  have e: "frameElapsed 6100 (drawFrame 5980 (drawFrame 1000 (handleStartAnimation (drawFrame 0 initialState)))) = 2.55"
    by (simp add: frameElapsed_eq late_fields orElse_def)
  have e': "frameElapsed 6100 (setCycloidParameter 1 (drawFrame 5980 (drawFrame 1000 (handleStartAnimation (drawFrame 0 initialState))))) = 2.55"
    by (simp add: frameElapsed_eq late_fields orElse_def setCycloidParameter_def)
  have p': "cycloidParameter (setCycloidParameter 1 (drawFrame 5980 (drawFrame 1000 (handleStartAnimation (drawFrame 0 initialState))))) = 1"
    by (simp add: setCycloidParameter_def)
  have m: "(''Parametric Cycloid'', parametricCycloid p) \<in> set (curves p)" for p
    by (simp add: curves_def)
  show ?thesis
    apply (intro conjI)
        apply (simp add: late_fields)
       apply (simp add: drawFrame_animationState e late_fields maxTime_eq)
      apply (simp add: drawFrame_animationState e' maxTime_eq)
      apply (simp add: setCycloidParameter_def late_fields)
     apply (simp add: drawFrame_elapsedTimes e late_fields updateElapsedTimes_entry [OF m]
        progress_def parametricCycloid_def toFixed2_def digitChar_def)
    apply (simp add: drawFrame_elapsedTimes e' p' updateElapsedTimes_entry [OF m]
        progress_def parametricCycloid_def toFixed2_def digitChar_def)
    done
qed

subsection \<open>Transition arrows\<close>

text \<open>
  C5: a row should carry an arrow exactly when its rank index differs from its index in
  the previous ranking. In the run of the running example the frames at 1000 ms and at
  3000 ms compute the same ranking, so no rank index changed between the two
  computations and the animation is not complete; after the second frame every row of
  the panel is highlighted and carries the down arrow. The stored previous ranking is
  still the empty initial list, in which every label has the index -1.
\<close>

theorem unchanged_ranking_all_rows_declined:
  "session initialState [Frame 0, Start, Frame 1000, Frame 3000]
     = Some (drawFrame 3000 (drawFrame 1000 (handleStartAnimation (drawFrame 0 initialState))))
   \<and> newRankings (frameElapsed 1000 (handleStartAnimation (drawFrame 0 initialState))) 0.2
     = newRankings (frameElapsed 3000 (drawFrame 1000 (handleStartAnimation (drawFrame 0 initialState)))) 0.2
   \<and> rankings (drawFrame 1000 (handleStartAnimation (drawFrame 0 initialState)))
     = rankings (drawFrame 3000 (drawFrame 1000 (handleStartAnimation (drawFrame 0 initialState))))
   \<and> isAnimationComplete (drawFrame 3000 (drawFrame 1000 (handleStartAnimation (drawFrame 0 initialState)))) = False
   \<and> prevRankings (drawFrame 3000 (drawFrame 1000 (handleStartAnimation (drawFrame 0 initialState)))) = []
   \<and> rankingRows (drawFrame 3000 (drawFrame 1000 (handleStartAnimation (drawFrame 0 initialState))))
     = [(''Brachistochrone'', True, Some Declined), (''Straight Line'', True, Some Declined),
        (''Parabola'', True, Some Declined), (''Parametric Cycloid'', True, Some Declined)]"
proof (intro conjI)
  show "session initialState [Frame 0, Start, Frame 1000, Frame 3000]
     = Some (drawFrame 3000 (drawFrame 1000 (handleStartAnimation (drawFrame 0 initialState))))"
    by (rule midrun_session)
qed (simp_all add: newRankings_registry_order drawFrame_rankings midrun_fields
      rankingRows_def rowArrow_def)

subsection \<open>Time strings of finished curves\<close>

text \<open>
  C6: the time shown for a finished curve should be its nominal duration. A run at speed
  0.5 has reached 2.49 seconds; the frame at 6020 ms computes 2.51 seconds, stores 2.50
  for the straight line and completes the animation, but the stored elapsed time stays
  2.49. The frame the effect then draws in the idle state computes the progress of the
  straight line from the stored 2.49, finds it below 1 and stores 2.49: this is the
  string the panel of the completed animation shows.
\<close>

theorem completed_run_shows_stale_time:
  "session initialState [Frame 0, Start, Frame 1000, Frame 5980, Frame 6020, Frame 6021]
     = Some (drawFrame 6021 (drawFrame 6020 (drawFrame 5980 (drawFrame 1000
         (handleStartAnimation (drawFrame 0 initialState))))))
   \<and> frameElapsed 6020 (drawFrame 5980 (drawFrame 1000
         (handleStartAnimation (drawFrame 0 initialState)))) = 2.51
   \<and> elapsedTimes (drawFrame 6020 (drawFrame 5980 (drawFrame 1000
         (handleStartAnimation (drawFrame 0 initialState))))) ''Straight Line'' = Some ''2.50''
   \<and> animationState (drawFrame 6020 (drawFrame 5980 (drawFrame 1000
         (handleStartAnimation (drawFrame 0 initialState))))) = Idle
   \<and> pausedElapsedTime (drawFrame 6020 (drawFrame 5980 (drawFrame 1000
         (handleStartAnimation (drawFrame 0 initialState))))) = 2.49
   \<and> isAnimationComplete (drawFrame 6021 (drawFrame 6020 (drawFrame 5980 (drawFrame 1000
         (handleStartAnimation (drawFrame 0 initialState))))))
   \<and> elapsedTimes (drawFrame 6021 (drawFrame 6020 (drawFrame 5980 (drawFrame 1000
         (handleStartAnimation (drawFrame 0 initialState)))))) ''Straight Line'' = Some ''2.49''"
proof -
  define s where "s = drawFrame 5980 (drawFrame 1000 (handleStartAnimation (drawFrame 0 initialState)))"
  have f: "animationState s = Running" "pausedElapsedTime s = 2.49" "cycloidParameter s = 0.2"
    unfolding s_def by (rule late_fields)+
  have e: "frameElapsed 6020 s = 2.51"
    unfolding s_def by (simp add: frameElapsed_eq late_fields orElse_def)
  have m: "(''Straight Line'', straightLine) \<in> set (curves (cycloidParameter s))"
    by (simp add: curves_def)
  have over: "maxTime (cycloidParameter s) \<le> frameElapsed 6020 s"
    by (simp add: e f maxTime_eq)
  have fin: "\<not> progress (frameElapsed 6020 s) straightLine < 1"
    by (simp add: e progress_def straightLine_def)
  have stale: "progress (pausedElapsedTime s) straightLine < 1"
    by (simp add: f progress_def straightLine_def)
  have s1: "elapsedTimes (drawFrame 6020 s) ''Straight Line'' = Some ''2.50''"
    using finished_entry_in_frame [OF m fin]
    by (simp add: toFixed2_def digitChar_def straightLine_def)
  note a = frame_after_completion [OF m f(1) over stale]
  have p: "pausedElapsedTime (drawFrame 6020 s) = 2.49"
    using over by (simp add: drawFrame_pausedElapsedTime f)
  have s2: "elapsedTimes (drawFrame 6021 (drawFrame 6020 s)) ''Straight Line'' = Some ''2.49''"
    using a(3) [of 6021] by (simp add: f toFixed2_def digitChar_def)
  have c: "isAnimationComplete (drawFrame 6021 (drawFrame 6020 s))"
    using a(2) by (simp add: drawFrame_isAnimationComplete)
  have en: "animationState (drawFrame 1000 (handleStartAnimation (drawFrame 0 initialState))) = Running"
    by (simp add: started_state drawFrame_fields frameElapsed_eq orElse_def maxTime_eq)
  have ses: "session initialState [Frame 0, Start, Frame 1000, Frame 5980, Frame 6020, Frame 6021]
     = Some (drawFrame 6021 (drawFrame 6020 s))"
    unfolding s_def
    by (simp add: started_state drawFrame_fields frameElapsed_eq orElse_def maxTime_eq)
      (simp add: initialState_def)
  from ses e s1 a(1) p c s2 show ?thesis
    unfolding s_def by (intro conjI)
qed

subsection \<open>Pause and resume\<close>

text \<open>
  C7: after a pause, any number of frames drawn while paused, and a resume, the first
  frame computes exactly the elapsed time stored at the pause, at whatever timestamp it
  comes: the resume handler clears the last timestamp, so the frame measures from its
  own timestamp. The stored elapsed time is unchanged by that frame, which becomes the
  baseline of the next one: if the animation is still running, the frame after it adds
  the time since the first frame times the speed, and nothing for the pause. (A baseline
  of exactly 0 counts as missing and gives a delta of 0.)
\<close>

theorem pause_resume_adds_no_elapsed_time:
  "frameElapsed t (handleResumeAnimation (fold drawFrame ts (handlePauseAnimation s)))
     = pausedElapsedTime s
   \<and> pausedElapsedTime (drawFrame t (handleResumeAnimation (fold drawFrame ts (handlePauseAnimation s))))
     = pausedElapsedTime s
   \<and> lastTimestampRef (drawFrame t (handleResumeAnimation (fold drawFrame ts (handlePauseAnimation s))))
     = Some t
   \<and> frameElapsed t2 (drawFrame t (handleResumeAnimation (fold drawFrame ts (handlePauseAnimation s))))
     = (if animationState (drawFrame t (handleResumeAnimation (fold drawFrame ts (handlePauseAnimation s)))) = Running
        then pausedElapsedTime s
             + (t2 - (if t = 0 then t2 else t)) / 1000
               * animationSpeed (drawFrame t (handleResumeAnimation (fold drawFrame ts (handlePauseAnimation s))))
        else pausedElapsedTime s)"
proof -
  define s3 where "s3 = handleResumeAnimation (fold drawFrame ts (handlePauseAnimation s))"
  have "animationState (handlePauseAnimation s) \<noteq> Running"
    by (simp add: handlePauseAnimation_def)
  from static_frames [OF this, of ts]
  have "pausedElapsedTime (fold drawFrame ts (handlePauseAnimation s)) = pausedElapsedTime s"
    by (simp add: handlePauseAnimation_def)
  then have r: "lastTimestampRef s3 = None" "animationState s3 = Running"
    and p: "pausedElapsedTime s3 = pausedElapsedTime s"
    by (simp_all add: s3_def handleResumeAnimation_def)
  note f = resumed_frame [OF r, of t]
  have "frameElapsed t2 (drawFrame t s3)
     = (if animationState (drawFrame t s3) = Running
        then pausedElapsedTime s + (t2 - (if t = 0 then t2 else t)) / 1000 * animationSpeed (drawFrame t s3)
        else pausedElapsedTime s)"
  proof -
    have o: "orElse (lastTimestampRef (drawFrame t s3)) t2 = (if t = 0 then t2 else t)"
      by (simp add: f(3) orElse_def)
    have "frameElapsed t2 (drawFrame t s3)
       = (if animationState (drawFrame t s3) = Running
          then pausedElapsedTime (drawFrame t s3)
               + (t2 - orElse (lastTimestampRef (drawFrame t s3)) t2) / 1000
                 * animationSpeed (drawFrame t s3)
          else pausedElapsedTime (drawFrame t s3))"
      using f(4) by (auto simp add: frameElapsed_eq [of t2 "drawFrame t s3"])
    then show ?thesis
      unfolding o f(2) p .
  qed
  with f(1) f(2) f(3) p show ?thesis
    unfolding s3_def by simp
qed

subsection \<open>Monotone progress\<close>

text \<open>
  C8, as amended: take a state at the beginning of an unpaused running interval (the
  last timestamp cleared, as the start and resume handlers leave it) with a stored
  elapsed time that is not negative, a positive speed and a parameter that is not
  negative, and let the interval run over frames whose timestamps do not decrease, with
  any moves of the two sliders in between. Then the elapsed times of the frames do not
  decrease and none is negative; the progress of the brachistochrone, of the straight
  line and of the parabola does not decrease from frame to frame, and neither does the
  progress of the parametric cycloid as long as the parameter is not raised during the
  interval. Nothing in the code clamps a delta or holds the parameter during a run.
\<close>

theorem running_interval_is_monotone:
  assumes "lastTimestampRef s = None"
    and "0 \<le> pausedElapsedTime s"
    and "0 < animationSpeed s"
    and "0 \<le> cycloidParameter s"
    and "sorted (timestamps es)"
  shows "sorted (map fst (runningInterval s es))
         \<and> (\<forall>x\<in>set (runningInterval s es). 0 \<le> fst x)
         \<and> sorted (map (\<lambda>x. progress (fst x) brachistochrone) (runningInterval s es))
         \<and> sorted (map (\<lambda>x. progress (fst x) straightLine) (runningInterval s es))
         \<and> sorted (map (\<lambda>x. progress (fst x) parabola) (runningInterval s es))
         \<and> (sorted_wrt (\<lambda>p q. q \<le> p) (map snd (runningInterval s es)) \<longrightarrow>
              sorted (map (\<lambda>x. progress (fst x) (parametricCycloid (snd x))) (runningInterval s es)))"
proof -
  have "startTimeRef s = None \<or> (\<forall>t\<in>set (timestamps es). orElse (lastTimestampRef s) t \<le> t)"
    using assms(1) by (simp add: orElse_def)
  with runningInterval_lower_sorted [of s es] assms(3) assms(4) assms(5)
  have lower: "\<forall>x\<in>set (runningInterval s es). pausedElapsedTime s \<le> fst x \<and> 0 \<le> snd x"
    and srt: "sorted (map fst (runningInterval s es))"
    by simp_all
  from lower assms(2) have nonneg: "\<forall>x\<in>set (runningInterval s es). 0 \<le> fst x"
    by auto
  have b: "sorted (map (\<lambda>x. progress (fst x) brachistochrone) (runningInterval s es))"
    using srt by (rule sorted_progress) (simp add: brachistochrone_def)
  have l: "sorted (map (\<lambda>x. progress (fst x) straightLine) (runningInterval s es))"
    using srt by (rule sorted_progress) (simp add: straightLine_def)
  have p: "sorted (map (\<lambda>x. progress (fst x) parabola) (runningInterval s es))"
    using srt by (rule sorted_progress) (simp add: parabola_def)
  have c: "sorted (map (\<lambda>x. progress (fst x) (parametricCycloid (snd x))) (runningInterval s es))"
    if down: "sorted_wrt (\<lambda>p q. q \<le> p) (map snd (runningInterval s es))"
  proof -
    have "progress (fst (runningInterval s es ! i)) (parametricCycloid (snd (runningInterval s es ! i)))
          \<le> progress (fst (runningInterval s es ! j)) (parametricCycloid (snd (runningInterval s es ! j)))"
      if "i < j" and "j < length (runningInterval s es)" for i j
    proof -
      from that have i: "i < length (runningInterval s es)" by simp
      from srt that have "fst (runningInterval s es ! i) \<le> fst (runningInterval s es ! j)"
        by (simp add: sorted_wrt_iff_nth_less sorted_map)
      moreover from down that have "snd (runningInterval s es ! j) \<le> snd (runningInterval s es ! i)"
        by (simp add: sorted_wrt_iff_nth_less sorted_wrt_map)
      moreover from nonneg i have "0 \<le> fst (runningInterval s es ! i)"
        by simp
      moreover from lower that(2) have "0 \<le> snd (runningInterval s es ! j)"
        by simp
      ultimately show ?thesis
        by (intro progress_parametricCycloid_mono)
    qed
    then show ?thesis
      by (simp add: sorted_map sorted_wrt_iff_nth_less)
  qed
  from srt nonneg b l p c show ?thesis
    by blast
qed

text \<open>
  A started run with frames at 1000, 2000 and 3000 ms, the speed slider moved to 1 after
  the first frame and the parameter slider moved down to 0.1 after the second.
\<close>

theorem running_interval_is_monotone_witness:
  "lastTimestampRef (handleStartAnimation (drawFrame 0 initialState)) = None
   \<and> 0 \<le> pausedElapsedTime (handleStartAnimation (drawFrame 0 initialState))
   \<and> 0 < animationSpeed (handleStartAnimation (drawFrame 0 initialState))
   \<and> 0 \<le> cycloidParameter (handleStartAnimation (drawFrame 0 initialState))
   \<and> sorted (timestamps [Frame 1000, SpeedSlider 1, Frame 2000, ParameterSlider 0.1, Frame 3000])
   \<and> runningInterval (handleStartAnimation (drawFrame 0 initialState))
        [Frame 1000, SpeedSlider 1, Frame 2000, ParameterSlider 0.1, Frame 3000]
       = [(0, 1 / 5), (1, 1 / 5), (2, 1 / 10)]
   \<and> sorted (map fst (runningInterval (handleStartAnimation (drawFrame 0 initialState))
        [Frame 1000, SpeedSlider 1, Frame 2000, ParameterSlider 0.1, Frame 3000]))
   \<and> sorted (map (\<lambda>x. progress (fst x) straightLine)
        (runningInterval (handleStartAnimation (drawFrame 0 initialState))
          [Frame 1000, SpeedSlider 1, Frame 2000, ParameterSlider 0.1, Frame 3000]))
   \<and> sorted (map (\<lambda>x. progress (fst x) (parametricCycloid (snd x)))
        (runningInterval (handleStartAnimation (drawFrame 0 initialState))
          [Frame 1000, SpeedSlider 1, Frame 2000, ParameterSlider 0.1, Frame 3000]))"
proof -
  have h: "lastTimestampRef (handleStartAnimation (drawFrame 0 initialState)) = None"
    "0 \<le> pausedElapsedTime (handleStartAnimation (drawFrame 0 initialState))"
    "0 < animationSpeed (handleStartAnimation (drawFrame 0 initialState))"
    "0 \<le> cycloidParameter (handleStartAnimation (drawFrame 0 initialState))"
    "sorted (timestamps [Frame 1000, SpeedSlider 1, Frame 2000, ParameterSlider 0.1, Frame 3000])"
    by (simp_all add: started_state)
  have l: "runningInterval (handleStartAnimation (drawFrame 0 initialState))
        [Frame 1000, SpeedSlider 1, Frame 2000, ParameterSlider 0.1, Frame 3000]
       = [(0, 1 / 5), (1, 1 / 5), (2, 1 / 10)]"
    by (simp add: started_state frameElapsed_eq orElse_def drawFrame_fields maxTime_eq
        setAnimationSpeed_def setCycloidParameter_def)
  have d: "sorted_wrt (\<lambda>p q. q \<le> p) (map snd (runningInterval (handleStartAnimation (drawFrame 0 initialState))
        [Frame 1000, SpeedSlider 1, Frame 2000, ParameterSlider 0.1, Frame 3000]))"
    unfolding l by simp
  note t = running_interval_is_monotone [OF h]
  from t have s1: "sorted (map fst (runningInterval (handleStartAnimation (drawFrame 0 initialState))
        [Frame 1000, SpeedSlider 1, Frame 2000, ParameterSlider 0.1, Frame 3000]))"
    by (rule conjunct1)
  from t have s2: "sorted (map (\<lambda>x. progress (fst x) straightLine)
        (runningInterval (handleStartAnimation (drawFrame 0 initialState))
          [Frame 1000, SpeedSlider 1, Frame 2000, ParameterSlider 0.1, Frame 3000]))"
    by blast
  from t d have s3: "sorted (map (\<lambda>x. progress (fst x) (parametricCycloid (snd x)))
        (runningInterval (handleStartAnimation (drawFrame 0 initialState))
          [Frame 1000, SpeedSlider 1, Frame 2000, ParameterSlider 0.1, Frame 3000]))"
    by blast
  from h l s1 s2 s3 show ?thesis
    by (intro conjI)
qed

text \<open>
  The claim as stated fails in two ways. When the second frame of a started run comes
  with the timestamp 500 after 1000, its elapsed time is -1/4, and the progress of the
  straight line falls below its progress at the first frame. And with the increasing
  timestamps 1000, 3000 and 3020, when the parameter slider is moved from 0.2 to 1
  before the third frame, the progress of the parametric cycloid falls from 5/12 to
  101/400.
\<close>

theorem running_interval_counterexample:
  "animationState (handleStartAnimation (drawFrame 0 initialState)) = Running
   \<and> runningInterval (handleStartAnimation (drawFrame 0 initialState)) [Frame 1000, Frame 500]
       = [(0, 1 / 5), (- (1 / 4), 1 / 5)]
   \<and> progress (- (1 / 4)) straightLine < progress 0 straightLine
   \<and> sorted (timestamps [Frame 1000, Frame 3000, ParameterSlider 1, Frame 3020])
   \<and> runningInterval (handleStartAnimation (drawFrame 0 initialState))
        [Frame 1000, Frame 3000, ParameterSlider 1, Frame 3020]
       = [(0, 1 / 5), (1, 1 / 5), (101 / 100, 1)]
   \<and> progress 1 (parametricCycloid (1 / 5)) = 5 / 12
   \<and> progress (101 / 100) (parametricCycloid 1) = 101 / 400"
  by (simp add: started_state frameElapsed_eq orElse_def drawFrame_fields maxTime_eq
      setCycloidParameter_def progress_def straightLine_def parametricCycloid_def)

subsection \<open>The speed multiplier\<close>

text \<open>
  C9: in every state a session reaches the speed multiplier is positive, and it stays
  positive when the speed slider is asked for any value: a value that is not in the
  range of the slider, in particular one that is not positive, is either ignored, which
  leaves the previous multiplier in place, or clamped, which gives the minimum 0.1. The
  value the slider passes on is one the session accepts, and the setter stores it for
  the time deltas of the frames that follow.
\<close>

theorem speed_multiplier_stays_positive:
  assumes "session initialState es = Some s"
  shows "0 < animationSpeed s
         \<and> 0 < animationSpeed (speedSliderChange policy requested s)
         \<and> (requested \<le> 0 \<longrightarrow>
              animationSpeed (speedSliderChange policy requested s)
              = (case policy of Ignore \<Rightarrow> animationSpeed s | Clamp \<Rightarrow> 0.1))
         \<and> session initialState
              (es @ [SpeedSlider (sliderValue policy 0.1 2 (animationSpeed s) requested)])
             = Some (speedSliderChange policy requested s)"
proof -
  from sessionInv_session [OF sessionInv_initial assms]
  have r: "0.1 \<le> animationSpeed s" "animationSpeed s \<le> 2"
    by (simp_all add: sessionInv_def)
  with sliderValue_in_range [of "0.1" 2 "animationSpeed s" policy requested]
  have v: "0.1 \<le> sliderValue policy 0.1 2 (animationSpeed s) requested"
    "sliderValue policy 0.1 2 (animationSpeed s) requested \<le> 2"
    by simp_all
  have a: "animationSpeed (speedSliderChange policy requested s)
           = sliderValue policy 0.1 2 (animationSpeed s) requested"
    by (simp add: speedSliderChange_def setAnimationSpeed_def)
  have c: "animationSpeed (speedSliderChange policy requested s)
           = (case policy of Ignore \<Rightarrow> animationSpeed s | Clamp \<Rightarrow> 0.1)"
    if "requested \<le> 0"
    using that
    by (cases policy) (simp_all add: speedSliderChange_def setAnimationSpeed_def sliderValue_def)
  have "session initialState
              (es @ [SpeedSlider (sliderValue policy 0.1 2 (animationSpeed s) requested)])
             = Some (speedSliderChange policy requested s)"
    using v by (simp add: session_append [OF assms] speedSliderChange_def)
  with r v c show ?thesis
    by (simp add: a)
qed

text \<open>
  The session mount, start, frame at 1000 ms, then the slider asked for -1 (clamped to
  0.1) or for 0 (ignored, the multiplier stays 0.5).
\<close>

theorem speed_multiplier_stays_positive_witness:
  "session initialState [Frame 0, Start, Frame 1000]
     = Some (drawFrame 1000 (handleStartAnimation (drawFrame 0 initialState)))
   \<and> animationSpeed (speedSliderChange Clamp (- 1)
        (drawFrame 1000 (handleStartAnimation (drawFrame 0 initialState)))) = 0.1
   \<and> animationSpeed (speedSliderChange Ignore 0
        (drawFrame 1000 (handleStartAnimation (drawFrame 0 initialState)))) = 0.5
   \<and> session initialState [Frame 0, Start, Frame 1000, SpeedSlider 0.1]
     = Some (speedSliderChange Clamp (- 1)
        (drawFrame 1000 (handleStartAnimation (drawFrame 0 initialState))))"
proof -
  have ex: "session initialState [Frame 0, Start, Frame 1000]
     = Some (drawFrame 1000 (handleStartAnimation (drawFrame 0 initialState)))"
    by (simp add: drawFrame_fields handlers) (simp add: initialState_def)
  have sp: "animationSpeed (drawFrame 1000 (handleStartAnimation (drawFrame 0 initialState))) = 0.5"
    by (simp add: started_state drawFrame_animationSpeed)
  have n: "(- 1 :: real) \<le> 0" "(0 :: real) \<le> 0"
    by simp_all
  note t1 = speed_multiplier_stays_positive [OF ex, of Clamp "- 1"]
  note t2 = speed_multiplier_stays_positive [OF ex, of Ignore 0]
  from t1 n(1) have c1: "animationSpeed (speedSliderChange Clamp (- 1)
        (drawFrame 1000 (handleStartAnimation (drawFrame 0 initialState)))) = 0.1"
    by simp
  from t2 n(2) have c2: "animationSpeed (speedSliderChange Ignore 0
        (drawFrame 1000 (handleStartAnimation (drawFrame 0 initialState)))) = 0.5"
    by (simp add: sp)
  from t1 have c3: "session initialState [Frame 0, Start, Frame 1000, SpeedSlider 0.1]
     = Some (speedSliderChange Clamp (- 1)
        (drawFrame 1000 (handleStartAnimation (drawFrame 0 initialState))))"
    by (simp add: sliderValue_def sp)
  from ex c1 c2 c3 show ?thesis
    by (intro conjI)
qed

subsection \<open>The adjustable curve\<close>

text \<open>
  C10: the duration of the adjustable curve is the plain cycloid's duration times
  (1 + parameter), for every parameter and in particular for those in [0,1]; with
  parameter 0 its position function is the position function of the Brachistochrone
  entry at every progress value, and the registry entry named Parametric Cycloid is this
  curve.
\<close>

theorem parametricCycloid_duration_and_plain_cycloid:
  "time (parametricCycloid p) = time brachistochrone * (1 + p)
   \<and> time brachistochrone = 2
   \<and> func (parametricCycloid 0) t = func brachistochrone t
   \<and> map_of (curves p) ''Parametric Cycloid'' = Some (parametricCycloid p)
   \<and> map_of (curves p) ''Brachistochrone'' = Some brachistochrone"
  by (simp add: parametricCycloid_def brachistochrone_def curves_def Let_def
      diff_divide_distrib mult.commute)

end
